theory Spec2Isabelle
  imports Main
begin

section \<open>Used propTypes detection (lib/util/usedPropTypes.js)\<close>

text \<open>
  A shallow embedding of \<^verbatim>\<open>lib/util/usedPropTypes.js\<close>. The syntax tree, the
  scope chain, the component classifier (\<^verbatim>\<open>utils\<close>) and the component registry
  (\<^verbatim>\<open>components\<close>) are collaborators of the module: the tree and the scope chain
  are inputs, the classifier's answers are fields of an environment, and the
  registry is modelled from its contract.
\<close>

subsection \<open>Syntax tree\<close>

text \<open>
  Errors of the module: the explicit \<^verbatim>\<open>throw new Error(...)\<close> of
  \<^verbatim>\<open>markPropTypesAsUsed\<close> (with the offending \<^verbatim>\<open>node.type\<close>), and the
  \<^verbatim>\<open>TypeError\<close> JavaScript raises when a field of \<^verbatim>\<open>undefined\<close> or
  \<^verbatim>\<open>null\<close> is read.
\<close>

datatype error = TypeError | NotHandled string

text \<open>
  The \<^verbatim>\<open>value\<close> field: a primitive on a \<^verbatim>\<open>Literal\<close> (a string,
  \<^verbatim>\<open>null\<close>, or another primitive), a node on a \<^verbatim>\<open>Property\<close>.
\<close>

datatype 'n jsvalue = VStr string | VNull | VPrim | VNode 'n

text \<open>
  An ESTree node, with the fields the module reads. A field the node does not have
  is \<open>None\<close> (\<^verbatim>\<open>undefined\<close>); \<open>computed\<close> is read for its truthiness
  only. \<open>ref\<close> stands for the identity of the object (\<^verbatim>\<open>===\<close> on nodes, and
  the registry's key); \<open>ntext\<close> is \<^verbatim>\<open>context.getSourceCode().getText(node)\<close>
  and \<open>tokens\<close> the values of \<^verbatim>\<open>context.getSourceCode().getTokens(node)\<close>.
  Characters are code units below 256. The \<^verbatim>\<open>parent\<close> link is not a field:
  a node is passed around with the list of its ancestors, parent first.
\<close>

datatype node = Node
  (ntype: string)
  (ref: nat)
  (start: nat)
  (name: "string option")
  (computed: bool)
  (kind: "string option")
  (nvalue: "node jsvalue option")
  (object: "node option")
  (property: "node option")
  (key: "node option")
  (id_node: "node option")
  (init: "node option")
  (left: "node option")
  (callee: "node option")
  (params: "node list option")
  (arguments: "node list option")
  (properties: "node list option")
  (ntext: string)
  (tokens: "string list")

text \<open>A scope of \<^verbatim>\<open>context.getScope()\<close>: its \<^verbatim>\<open>block\<close> with the block's ancestors.\<close>

type_synonym scope = "(node \<times> node list) option"

subsection \<open>Registry and environment\<close>

text \<open>One element of \<^verbatim>\<open>usedPropTypes\<close>: \<^verbatim>\<open>{name, allNames, node}\<close>.\<close>

record usage =
  uname :: string
  allNames :: "string option list"
  unode :: "node option"

record component =
  cnode :: nat
  usedPropTypes :: "usage list option"
  ignoreUnusedPropTypesValidation :: "bool option"
  ignorePropsValidation :: bool
  declaredPropTypes :: "(string \<times> node \<times> node list) list option"

text \<open>The object literal handed to \<^verbatim>\<open>components.set\<close>.\<close>

record fields =
  f_usedPropTypes :: "usage list option"
  f_ignoreUnusedPropTypesValidation :: "bool option"

type_synonym registry = "(nat \<times> component) list"

text \<open>
  Modelled from the spec: the component registry \<^verbatim>\<open>components\<close> (its
  \<^verbatim>\<open>get\<close>, \<^verbatim>\<open>set\<close> and \<^verbatim>\<open>list\<close> are not part of this module). The
  registry is read and written by owning node: \<open>get(key)\<close> gives the component or
  nothing, and \<open>set(key, fields)\<close> gets the current value, merges the new fields
  and sets it back; a key without a component (the raw node the module falls back
  to) starts from an entry that has only the merged fields.
\<close>

definition components_get :: "registry \<Rightarrow> nat option \<Rightarrow> component option" where
  "components_get reg k = (case k of None \<Rightarrow> None | Some i \<Rightarrow> map_of reg i)"

definition merge_fields :: "component \<Rightarrow> fields \<Rightarrow> component" where
  "merge_fields c f =
     c\<lparr>usedPropTypes :=
          (case f_usedPropTypes f of None \<Rightarrow> usedPropTypes c | Some u \<Rightarrow> Some u),
        ignoreUnusedPropTypesValidation :=
          (case f_ignoreUnusedPropTypesValidation f of
             None \<Rightarrow> ignoreUnusedPropTypesValidation c
           | Some b \<Rightarrow> Some b)\<rparr>"

definition fresh_component :: "nat \<Rightarrow> component" where
  "fresh_component k =
     \<lparr>cnode = k, usedPropTypes = None, ignoreUnusedPropTypesValidation = None,
      ignorePropsValidation = False, declaredPropTypes = None\<rparr>"

fun components_set :: "nat \<Rightarrow> fields \<Rightarrow> registry \<Rightarrow> registry" where
  "components_set k f [] = [(k, merge_fields (fresh_component k) f)]"
| "components_set k f ((k', c) # reg) =
     (if k = k' then (k', merge_fields c f) # reg
      else (k', c) # components_set k f reg)"

definition components_list :: "registry \<Rightarrow> component list" where
  "components_list reg = map snd reg"

text \<open>
  The ambient position of the traversal: what \<^verbatim>\<open>context\<close> and \<^verbatim>\<open>utils\<close>
  answer while one node is visited. \<open>scopes\<close> is \<^verbatim>\<open>context.getScope()\<close>
  followed by its \<^verbatim>\<open>upper\<close> scopes; \<open>getParentComponent\<close> is the identity of
  the node \<^verbatim>\<open>utils.getParentComponent()\<close> returns; the other \<^verbatim>\<open>utils\<close>
  answers are read for their truthiness. \<^verbatim>\<open>ast.getKeyValue\<close>,
  \<^verbatim>\<open>ast.isAssignmentLHS\<close> and \<^verbatim>\<open>astUtil.isFunctionLikeExpression\<close> are
  helpers of another module, and \<open>checkAsyncSafeLifeCycles\<close> is
  \<^verbatim>\<open>versionUtil.testReactVersion(context, '16.3.0')\<close>.
\<close>

record env =
  scopes :: "scope list"
  getParentES6Component :: bool
  getParentES5Component :: bool
  getParentStatelessComponent :: bool
  getParentComponent :: "nat option"
  inConstructor :: "node option \<Rightarrow> bool"
  getKeyValue :: "node \<Rightarrow> string option"
  isAssignmentLHS :: "node \<Rightarrow> node list \<Rightarrow> bool"
  isFunctionLikeExpression :: "node \<Rightarrow> bool"
  checkAsyncSafeLifeCycles :: bool

subsection \<open>Constants\<close>

text \<open>\<^verbatim>\<open>\s\<close> on code units below 256: tab, line feed, vertical tab, form feed,
  carriage return, space and no-break space.\<close>

definition isSpace :: "char \<Rightarrow> bool" where
  "isSpace c = (of_char c \<in> {9, 10, 11, 12, 13, 32, 160 :: nat})"

text \<open>\<^verbatim>\<open>/^root\s*(\.|\[)/.test(s)\<close>\<close>

definition direct_regex :: "string \<Rightarrow> string \<Rightarrow> bool" where
  "direct_regex root s =
     (take (length root) s = root \<and>
      (case dropWhile isSpace (drop (length root) s) of
         [] \<Rightarrow> False
       | c # _ \<Rightarrow> c = CHR ''.'' \<or> c = CHR ''[''))"

definition DIRECT_PROPS_REGEX :: "string \<Rightarrow> bool" where
  "DIRECT_PROPS_REGEX = direct_regex ''props''"

definition DIRECT_NEXT_PROPS_REGEX :: "string \<Rightarrow> bool" where
  "DIRECT_NEXT_PROPS_REGEX = direct_regex ''nextProps''"

definition DIRECT_PREV_PROPS_REGEX :: "string \<Rightarrow> bool" where
  "DIRECT_PREV_PROPS_REGEX = direct_regex ''prevProps''"

definition LIFE_CYCLE_METHODS :: "string list" where
  "LIFE_CYCLE_METHODS =
     [''componentWillReceiveProps'', ''shouldComponentUpdate'',
      ''componentWillUpdate'', ''componentDidUpdate'']"

definition ASYNC_SAFE_LIFE_CYCLE_METHODS :: "string list" where
  "ASYNC_SAFE_LIFE_CYCLE_METHODS =
     [''getDerivedStateFromProps'', ''getSnapshotBeforeUpdate'',
      ''UNSAFE_componentWillReceiveProps'', ''UNSAFE_componentWillUpdate'']"

text \<open>The property names of \<^verbatim>\<open>Object.prototype\<close> (\<^verbatim>\<open>name in Object.prototype\<close>).\<close>

definition Object_prototype :: "string list" where
  "Object_prototype =
     [''constructor'', ''__defineGetter__'', ''__defineSetter__'', ''hasOwnProperty'',
      ''__lookupGetter__'', ''__lookupSetter__'', ''isPrototypeOf'',
      ''propertyIsEnumerable'', ''toString'', ''valueOf'', ''__proto__'',
      ''toLocaleString'']"

definition COMPUTED_PROP :: string where
  "COMPUTED_PROP = ''__COMPUTED_PROP__''"

text \<open>\<^verbatim>\<open>list.indexOf(name) >= 0\<close>, for a name that may be \<^verbatim>\<open>undefined\<close>.\<close>

definition indexOf_ge0 :: "string list \<Rightarrow> string option \<Rightarrow> bool" where
  "indexOf_ge0 xs n = (case n of None \<Rightarrow> False | Some s \<Rightarrow> s \<in> set xs)"

subsection \<open>Context classification\<close>

definition isPropAttributeName :: "node \<Rightarrow> error + bool" where
  "isPropAttributeName node =
     (case init node of
        None \<Rightarrow> Inl TypeError
      | Some i \<Rightarrow>
          Inr (name i = Some ''props'' \<or> name i = Some ''nextProps'' \<or>
               name i = Some ''prevProps''))"

definition mustBeValidated :: "component option \<Rightarrow> bool" where
  "mustBeValidated component =
     (case component of None \<Rightarrow> False | Some c \<Rightarrow> \<not> ignorePropsValidation c)"

text \<open>\<^verbatim>\<open>scope.block && scope.block.parent\<close>\<close>

definition block_parent :: "scope \<Rightarrow> node option" where
  "block_parent scope =
     (case scope of
        None \<Rightarrow> None
      | Some (block, []) \<Rightarrow> None
      | Some (block, parent # _) \<Rightarrow> Some parent)"

text \<open>\<^verbatim>\<open>scope.block.parent.key.name\<close> where block, parent and key exist.\<close>

definition block_parent_key_name :: "scope \<Rightarrow> string option option" where
  "block_parent_key_name scope =
     (case block_parent scope of
        None \<Rightarrow> None
      | Some parent \<Rightarrow> (case key parent of None \<Rightarrow> None | Some k \<Rightarrow> Some (name k)))"

fun inComponentWillReceiveProps_loop :: "scope list \<Rightarrow> bool" where
  "inComponentWillReceiveProps_loop [] = False"
| "inComponentWillReceiveProps_loop (scope # upper) =
     (if block_parent_key_name scope = Some (Some ''componentWillReceiveProps'') then True
      else inComponentWillReceiveProps_loop upper)"

definition inComponentWillReceiveProps :: "env \<Rightarrow> bool" where
  "inComponentWillReceiveProps context = inComponentWillReceiveProps_loop (scopes context)"

fun inLifeCycleMethod_loop :: "scope list \<Rightarrow> bool \<Rightarrow> bool" where
  "inLifeCycleMethod_loop [] checkAsync = False"
| "inLifeCycleMethod_loop (scope # upper) checkAsync =
     (case block_parent_key_name scope of
        None \<Rightarrow> inLifeCycleMethod_loop upper checkAsync
      | Some nm \<Rightarrow>
          if indexOf_ge0 LIFE_CYCLE_METHODS nm then True
          else if checkAsync \<and> indexOf_ge0 ASYNC_SAFE_LIFE_CYCLE_METHODS nm then True
          else inLifeCycleMethod_loop upper checkAsync)"

definition inLifeCycleMethod :: "env \<Rightarrow> bool \<Rightarrow> bool" where
  "inLifeCycleMethod context checkAsync = inLifeCycleMethod_loop (scopes context) checkAsync"

definition isNodeALifeCycleMethod :: "node \<Rightarrow> bool \<Rightarrow> bool" where
  "isNodeALifeCycleMethod node checkAsync =
     (let nodeKeyName = (case key node of None \<Rightarrow> None | Some k \<Rightarrow> name k) in
      if kind node = Some ''constructor'' then True
      else if indexOf_ge0 LIFE_CYCLE_METHODS nodeKeyName then True
      else if checkAsync \<and> indexOf_ge0 ASYNC_SAFE_LIFE_CYCLE_METHODS nodeKeyName then True
      else False)"

fun isInLifeCycleMethod :: "node \<Rightarrow> node list \<Rightarrow> bool \<Rightarrow> bool" where
  "isInLifeCycleMethod node [] checkAsync =
     ((ntype node = ''MethodDefinition'' \<or> ntype node = ''Property'') \<and>
      isNodeALifeCycleMethod node checkAsync)"
| "isInLifeCycleMethod node (parent # ancestors) checkAsync =
     (if (ntype node = ''MethodDefinition'' \<or> ntype node = ''Property'') \<and>
         isNodeALifeCycleMethod node checkAsync
      then True
      else isInLifeCycleMethod parent ancestors checkAsync)"

text \<open>
  The condition \<^verbatim>\<open>inSetStateUpdater\<close> and
  \<^verbatim>\<open>isPropArgumentInSetStateUpdater\<close> share, for one scope: the block's parent
  is a call of a \<^verbatim>\<open>.setState\<close> member and the call's first argument starts
  where the block starts. The result is that first argument when the condition
  holds. Reading \<^verbatim>\<open>callee.property\<close> or \<^verbatim>\<open>arguments[0].start\<close> of
  something undefined raises.
\<close>

definition setStateUpdaterArg :: "scope \<Rightarrow> error + node option" where
  "setStateUpdaterArg scope =
     (case scope of
        None \<Rightarrow> Inr None
      | Some (block, []) \<Rightarrow> Inr None
      | Some (block, parent # _) \<Rightarrow>
          if ntype parent = ''CallExpression'' then
            (case callee parent of
               None \<Rightarrow> Inl TypeError
             | Some c \<Rightarrow>
                 (case property c of
                    None \<Rightarrow> Inr None
                  | Some p \<Rightarrow>
                      if name p = Some ''setState'' then
                        (case arguments parent of
                           None \<Rightarrow> Inl TypeError
                         | Some [] \<Rightarrow> Inl TypeError
                         | Some (a # _) \<Rightarrow>
                             if start a = start block then Inr (Some a) else Inr None)
                      else Inr None))
          else Inr None)"

fun inSetStateUpdater_loop :: "scope list \<Rightarrow> error + bool" where
  "inSetStateUpdater_loop [] = Inr False"
| "inSetStateUpdater_loop (scope # upper) =
     (case setStateUpdaterArg scope of
        Inl e \<Rightarrow> Inl e
      | Inr (Some a) \<Rightarrow> Inr True
      | Inr None \<Rightarrow> inSetStateUpdater_loop upper)"

definition inSetStateUpdater :: "env \<Rightarrow> error + bool" where
  "inSetStateUpdater context = inSetStateUpdater_loop (scopes context)"

fun isPropArgumentInSetStateUpdater_loop :: "scope list \<Rightarrow> node \<Rightarrow> error + bool" where
  "isPropArgumentInSetStateUpdater_loop [] node = Inr False"
| "isPropArgumentInSetStateUpdater_loop (scope # upper) node =
     (case setStateUpdaterArg scope of
        Inl e \<Rightarrow> Inl e
      | Inr None \<Rightarrow> isPropArgumentInSetStateUpdater_loop upper node
      | Inr (Some a) \<Rightarrow>
          (case params a of
             None \<Rightarrow> isPropArgumentInSetStateUpdater_loop upper node
           | Some ps \<Rightarrow>
               if length ps > 1 then
                 (case object node of
                    None \<Rightarrow> Inl TypeError
                  | Some ob \<Rightarrow> Inr (name (ps ! 1) = name ob))
               else isPropArgumentInSetStateUpdater_loop upper node))"

definition isPropArgumentInSetStateUpdater :: "env \<Rightarrow> node \<Rightarrow> error + bool" where
  "isPropArgumentInSetStateUpdater context node =
     isPropArgumentInSetStateUpdater_loop (scopes context) node"

definition hasSpreadOperator :: "node \<Rightarrow> bool" where
  "hasSpreadOperator node = (case tokens node of [] \<Rightarrow> False | t # _ \<Rightarrow> t = ''...'')"

subsection \<open>Property names\<close>

text \<open>
  The \<^verbatim>\<open>switch (property.type)\<close> of \<^verbatim>\<open>getPropertyName\<close>, for the node whose
  \<^verbatim>\<open>property\<close> is read. \<open>None\<close> is \<^verbatim>\<open>undefined\<close>.
\<close>

definition propertyName_switch :: "node \<Rightarrow> string option" where
  "propertyName_switch node =
     (case property node of
        None \<Rightarrow> None
      | Some p \<Rightarrow>
          if ntype p = ''Identifier'' then
            (if computed node then Some COMPUTED_PROP else name p)
          else if ntype p = ''MemberExpression'' then None
          else
            (case (if ntype p = ''Literal'' then nvalue p else None) of
               Some (VStr s) \<Rightarrow> Some s
             | _ \<Rightarrow> if computed node then Some COMPUTED_PROP else None))"

definition getPropertyName :: "env \<Rightarrow> node \<Rightarrow> node list \<Rightarrow> error + string option" where
  "getPropertyName context node ancestors =
     (let isDirectProp = DIRECT_PROPS_REGEX (ntext node);
          isDirectNextProp = DIRECT_NEXT_PROPS_REGEX (ntext node);
          isDirectPrevProp = DIRECT_PREV_PROPS_REGEX (ntext node)
      in (case isPropArgumentInSetStateUpdater context node of
            Inl e \<Rightarrow> Inl e
          | Inr isDirectSetStateProp \<Rightarrow>
              (let isInClassComponent =
                     (getParentES6Component context \<or> getParentES5Component context);
                   isNotInConstructor = (\<not> inConstructor context (Some node));
                   isNotInLifeCycleMethod =
                     (\<not> inLifeCycleMethod context (checkAsyncSafeLifeCycles context))
               in (case inSetStateUpdater context of
                     Inl e \<Rightarrow> Inl e
                   | Inr inUpdater \<Rightarrow>
                       if (isDirectProp \<or> isDirectNextProp \<or> isDirectPrevProp \<or>
                           isDirectSetStateProp) \<and>
                          isInClassComponent \<and> isNotInConstructor \<and>
                          isNotInLifeCycleMethod \<and> \<not> inUpdater
                       then Inr None
                       else if \<not> isDirectProp \<and> \<not> isDirectNextProp \<and>
                               \<not> isDirectPrevProp \<and> \<not> isDirectSetStateProp
                       then (case ancestors of
                               [] \<Rightarrow> Inl TypeError
                             | parent # _ \<Rightarrow> Inr (propertyName_switch parent))
                       else Inr (propertyName_switch node)))))"

definition isPropTypesUsage :: "env \<Rightarrow> node \<Rightarrow> node list \<Rightarrow> error + bool" where
  "isPropTypesUsage context node ancestors =
     (case object node of
        None \<Rightarrow> Inl TypeError
      | Some ob \<Rightarrow>
          (case (if ntype ob = ''ThisExpression''
                 then (case property node of
                         None \<Rightarrow> Inl TypeError
                       | Some p \<Rightarrow> Inr (name p = Some ''props''))
                 else Inr False) of
             Inl e \<Rightarrow> Inl e
           | Inr isThisPropsUsage \<Rightarrow>
               (let isPropsUsage =
                      (isThisPropsUsage \<or> name ob = Some ''nextProps'' \<or>
                       name ob = Some ''prevProps'')
                in (case (if getParentES6Component context \<or> getParentES5Component context
                          then (if isThisPropsUsage then Inr True
                                else isPropArgumentInSetStateUpdater context node)
                          else Inr False) of
                      Inl e \<Rightarrow> Inl e
                    | Inr isClassUsage \<Rightarrow>
                        (let isStatelessFunctionUsage =
                               (name ob = Some ''props'' \<and>
                                \<not> isAssignmentLHS context node ancestors)
                         in Inr (isClassUsage \<or> isStatelessFunctionUsage \<or>
                                 (isPropsUsage \<and>
                                  inLifeCycleMethod context
                                    (checkAsyncSafeLifeCycles context))))))))"

subsection \<open>Marking\<close>

text \<open>JavaScript truthiness of a name: neither \<^verbatim>\<open>undefined\<close> nor the empty string.\<close>

definition truthy :: "string option \<Rightarrow> bool" where
  "truthy n = (case n of None \<Rightarrow> False | Some s \<Rightarrow> s \<noteq> [])"

text \<open>\<^verbatim>\<open>xs[i]\<close>: \<^verbatim>\<open>undefined\<close> out of range.\<close>

definition nth_opt :: "'a list \<Rightarrow> nat \<Rightarrow> 'a option" where
  "nth_opt xs i = (if i < length xs then Some (xs ! i) else None)"

text \<open>
  What the first \<^verbatim>\<open>switch\<close> of \<^verbatim>\<open>markPropTypesAsUsed\<close> leaves in
  \<^verbatim>\<open>type\<close>, \<^verbatim>\<open>name\<close>, \<^verbatim>\<open>allNames\<close> and \<^verbatim>\<open>properties\<close>:
  \<^verbatim>\<open>'direct'\<close> with the name and the path, \<^verbatim>\<open>'destructuring'\<close> with the
  properties (possibly \<^verbatim>\<open>undefined\<close>), or no type.
\<close>

datatype marking = Direct string "string list" | Destructuring "node list option" | NoMark

text \<open>
  The \<^verbatim>\<open>while\<close> loop of the destructuring case: the names of the member
  accesses from \<open>currentNode\<close> inwards, down to \<^verbatim>\<open>props\<close>.
\<close>

fun path_loop :: "node \<Rightarrow> string option list \<Rightarrow> error + string option list" where
  "path_loop (Node ty r st nm cp kd vl ob pr ky idn ini lf cl ps ar pp tx tk) names =
     (case pr of
        None \<Rightarrow> Inr names
      | Some p \<Rightarrow>
          if name p \<noteq> Some ''props'' then
            (case ob of
               None \<Rightarrow> Inl TypeError
             | Some currentNode \<Rightarrow> path_loop currentNode (name p # names))
          else Inr names)"

text \<open>The \<^verbatim>\<open>for\<close> loop of the destructuring case, with its \<^verbatim>\<open>break\<close>.\<close>

fun destructuring_loop ::
  "env \<Rightarrow> node \<Rightarrow> node list \<Rightarrow> usage list \<Rightarrow> bool \<Rightarrow> error + (usage list \<times> bool)" where
  "destructuring_loop context node [] used ignore = Inr (used, ignore)"
| "destructuring_loop context node (p # rest) used ignore =
     (if hasSpreadOperator p \<or> computed p then Inr (used, True)
      else
        (case path_loop node [] of
           Inl e \<Rightarrow> Inl e
         | Inr names \<Rightarrow>
             (case getKeyValue context p of
                None \<Rightarrow> destructuring_loop context node rest used ignore
              | Some propName \<Rightarrow>
                  if propName \<noteq> [] then
                    destructuring_loop context node rest
                      (used @ [\<lparr>uname = propName, allNames = names @ [Some propName],
                                unode = Some p\<rparr>])
                      ignore
                  else destructuring_loop context node rest used ignore)))"

text \<open>
  Lines 326 to 385: the component is looked up, the usages are collected according
  to the type, and the result is merged into the registry under the component's
  node, or under the node itself when there is no component.
\<close>

definition recordUsage ::
  "env \<Rightarrow> node \<Rightarrow> node list \<Rightarrow> marking \<Rightarrow> registry \<Rightarrow> error option \<times> registry" where
  "recordUsage context node ancestors m reg =
     (let component = components_get reg (getParentComponent context);
          used0 = (case component of
                     None \<Rightarrow> []
                   | Some c \<Rightarrow> (case usedPropTypes c of None \<Rightarrow> [] | Some u \<Rightarrow> u));
          ignore0 = (case component of
                       None \<Rightarrow> False
                     | Some c \<Rightarrow>
                         (case ignoreUnusedPropTypesValidation c of
                            None \<Rightarrow> False
                          | Some b \<Rightarrow> b));
          target = (case component of None \<Rightarrow> ref node | Some c \<Rightarrow> cnode c)
      in case m of
           NoMark \<Rightarrow>
             (None,
              components_set target
                \<lparr>f_usedPropTypes = Some used0,
                 f_ignoreUnusedPropTypesValidation = Some ignore0\<rparr> reg)
         | Direct nm names \<Rightarrow>
             if nm \<in> set Object_prototype then
               (None,
                components_set target
                  \<lparr>f_usedPropTypes = Some used0,
                   f_ignoreUnusedPropTypesValidation = Some ignore0\<rparr> reg)
             else
               (let isDirectProp =
                      (DIRECT_PROPS_REGEX (ntext node) \<or>
                       DIRECT_NEXT_PROPS_REGEX (ntext node) \<or>
                       DIRECT_PREV_PROPS_REGEX (ntext node))
                in case (if \<not> isDirectProp \<and> \<not> inConstructor context None \<and>
                            \<not> inComponentWillReceiveProps context
                         then (case ancestors of
                                 [] \<Rightarrow> Inl TypeError
                               | parent # _ \<Rightarrow> Inr (property parent))
                         else Inr (property node)) of
                     Inl e \<Rightarrow> (Some e, reg)
                   | Inr reportedNode \<Rightarrow>
                       (None,
                        components_set target
                          \<lparr>f_usedPropTypes =
                             Some (used0 @ [\<lparr>uname = nm, allNames = map Some names,
                                             unode = reportedNode\<rparr>]),
                           f_ignoreUnusedPropTypesValidation = Some ignore0\<rparr> reg))
         | Destructuring props \<Rightarrow>
             (case destructuring_loop context node
                     (case props of None \<Rightarrow> [] | Some ps \<Rightarrow> ps) used0 ignore0 of
                Inl e \<Rightarrow> (Some e, reg)
              | Inr (used, ignore) \<Rightarrow>
                  (None,
                   components_set target
                     \<lparr>f_usedPropTypes = Some used,
                      f_ignoreUnusedPropTypesValidation = Some ignore\<rparr> reg)))"

text \<open>
  \<^verbatim>\<open>propParam.type === 'AssignmentPattern' ? propParam.left.properties :
  propParam.properties\<close>
\<close>

definition param_properties :: "node \<Rightarrow> error + marking" where
  "param_properties propParam =
     (if ntype propParam = ''AssignmentPattern'' then
        (case left propParam of
           None \<Rightarrow> Inl TypeError
         | Some l \<Rightarrow> Inr (Destructuring (properties l)))
      else Inr (Destructuring (properties propParam)))"

text \<open>The function cases of the first \<^verbatim>\<open>switch\<close>.\<close>

definition function_marking :: "env \<Rightarrow> node \<Rightarrow> error + marking" where
  "function_marking context node =
     (case params node of
        None \<Rightarrow> Inl TypeError
      | Some ps \<Rightarrow>
          if length ps = 0 then Inr NoMark
          else
            (case inSetStateUpdater context of
               Inl e \<Rightarrow> Inl e
             | Inr inUpdater \<Rightarrow>
                 (case (if inUpdater then nth_opt ps 1 else nth_opt ps 0) of
                    None \<Rightarrow> Inl TypeError
                  | Some propParam \<Rightarrow> param_properties propParam)))"

text \<open>
  The callback of \<^verbatim>\<open>node.id.properties.some\<close> in the
  \<^verbatim>\<open>VariableDeclarator\<close> case, run over the properties in order.
\<close>

definition thisDestructuring :: "node \<Rightarrow> error + bool" where
  "thisDestructuring property_node =
     (case key property_node of
        None \<Rightarrow> Inr False
      | Some k \<Rightarrow>
          if name k = Some ''props'' \<or> nvalue k = Some (VStr ''props'') then
            (case nvalue property_node of
               None \<Rightarrow> Inl TypeError
             | Some VNull \<Rightarrow> Inl TypeError
             | Some (VNode v) \<Rightarrow> Inr (ntype v = ''ObjectPattern'')
             | Some _ \<Rightarrow> Inr False)
          else Inr False)"

definition genericDestructuring :: "env \<Rightarrow> node \<Rightarrow> node list \<Rightarrow> error + bool" where
  "genericDestructuring context node ancestors =
     (case isPropAttributeName node of
        Inl e \<Rightarrow> Inl e
      | Inr b \<Rightarrow>
          Inr (b \<and> (getParentStatelessComponent context \<or>
                     isInLifeCycleMethod node ancestors (checkAsyncSafeLifeCycles context))))"

fun declarator_some ::
  "env \<Rightarrow> node \<Rightarrow> node list \<Rightarrow> node list \<Rightarrow> node list \<Rightarrow> error + marking" where
  "declarator_some context node ancestors all_props [] = Inr NoMark"
| "declarator_some context node ancestors all_props (p # rest) =
     (case thisDestructuring p of
        Inl e \<Rightarrow> Inl e
      | Inr this_d \<Rightarrow>
          (case genericDestructuring context node ancestors of
             Inl e \<Rightarrow> Inl e
           | Inr generic_d \<Rightarrow>
               if this_d then
                 (case nvalue p of
                    Some (VNode v) \<Rightarrow> Inr (Destructuring (properties v))
                  | _ \<Rightarrow> Inl TypeError)
               else if generic_d then Inr (Destructuring (Some all_props))
               else declarator_some context node ancestors all_props rest))"

definition declarator_marking :: "env \<Rightarrow> node \<Rightarrow> node list \<Rightarrow> error + marking" where
  "declarator_marking context node ancestors =
     (case id_node node of
        None \<Rightarrow> Inl TypeError
      | Some i \<Rightarrow>
          (case properties i of
             None \<Rightarrow> Inl TypeError
           | Some ps \<Rightarrow> declarator_some context node ancestors ps ps))"

text \<open>
  The \<^verbatim>\<open>else if\<close> of the \<^verbatim>\<open>MemberExpression\<close> case: the access has no
  name and its parent binds a pattern whose first property has a key.
\<close>

definition member_destructuring :: "env \<Rightarrow> node list \<Rightarrow> error + marking" where
  "member_destructuring context ancestors =
     (case ancestors of
        [] \<Rightarrow> Inl TypeError
      | parent # _ \<Rightarrow>
          (case id_node parent of
             None \<Rightarrow> Inr NoMark
           | Some i \<Rightarrow>
               (case properties i of
                  None \<Rightarrow> Inr NoMark
                | Some [] \<Rightarrow> Inr NoMark
                | Some (p0 # ps) \<Rightarrow>
                    if truthy (getKeyValue context p0)
                    then Inr (Destructuring (Some (p0 # ps)))
                    else Inr NoMark)))"

text \<open>
  The cases of the first \<^verbatim>\<open>switch\<close> other than \<^verbatim>\<open>MemberExpression\<close>, followed
  by the rest of the function; the \<^verbatim>\<open>default\<close> case throws.
\<close>

definition mark_other ::
  "env \<Rightarrow> node \<Rightarrow> node list \<Rightarrow> registry \<Rightarrow> error option \<times> registry" where
  "mark_other context node ancestors reg =
     (if ntype node = ''ArrowFunctionExpression'' \<or> ntype node = ''FunctionDeclaration'' \<or>
         ntype node = ''FunctionExpression'' then
        (case function_marking context node of
           Inl e \<Rightarrow> (Some e, reg)
         | Inr m \<Rightarrow> recordUsage context node ancestors m reg)
      else if ntype node = ''VariableDeclarator'' then
        (case declarator_marking context node ancestors of
           Inl e \<Rightarrow> (Some e, reg)
         | Inr m \<Rightarrow> recordUsage context node ancestors m reg)
      else (Some (NotHandled (ntype node)), reg))"

text \<open>\<^verbatim>\<open>node.parent.type === 'MemberExpression' && node.parent.object === node\<close>\<close>

definition continues_chain :: "node \<Rightarrow> node \<Rightarrow> bool" where
  "continues_chain parent node =
     (ntype parent = ''MemberExpression'' \<and>
      (case object parent of None \<Rightarrow> False | Some ob \<Rightarrow> ref ob = ref node))"

text \<open>
  \<^verbatim>\<open>markPropTypesAsUsed(node, parentNames)\<close>. The result is the error thrown, if
  any, and the registry at that moment.
\<close>

fun markPropTypesAsUsed ::
  "env \<Rightarrow> node \<Rightarrow> node list \<Rightarrow> string list \<Rightarrow> registry \<Rightarrow> error option \<times> registry" where
  "markPropTypesAsUsed context node ancestors parentNames reg =
     (if ntype node = ''MemberExpression'' then
        (case getPropertyName context node ancestors of
           Inl e \<Rightarrow> (Some e, reg)
         | Inr nm \<Rightarrow>
             (case (if truthy nm then nm else None) of
                Some n \<Rightarrow>
                  (case ancestors of
                     [] \<Rightarrow> (Some TypeError, reg)
                   | parent # grandparents \<Rightarrow>
                       (case (if continues_chain parent node
                              then markPropTypesAsUsed context parent grandparents
                                     (parentNames @ [n]) reg
                              else (None, reg)) of
                          (Some e, reg1) \<Rightarrow> (Some e, reg1)
                        | (None, reg1) \<Rightarrow>
                            recordUsage context node ancestors
                              (if n \<noteq> COMPUTED_PROP then Direct n (parentNames @ [n])
                               else NoMark)
                              reg1))
              | None \<Rightarrow>
                  (case member_destructuring context ancestors of
                     Inl e \<Rightarrow> (Some e, reg)
                   | Inr m \<Rightarrow> recordUsage context node ancestors m reg)))
      else mark_other context node ancestors reg)"

subsection \<open>Traversal handlers\<close>

definition handleSetStateUpdater ::
  "env \<Rightarrow> node \<Rightarrow> node list \<Rightarrow> registry \<Rightarrow> error option \<times> registry" where
  "handleSetStateUpdater context node ancestors reg =
     (case params node of
        None \<Rightarrow> (None, reg)
      | Some ps \<Rightarrow>
          if length ps < 2 then (None, reg)
          else
            (case inSetStateUpdater context of
               Inl e \<Rightarrow> (Some e, reg)
             | Inr inUpdater \<Rightarrow>
                 if \<not> inUpdater then (None, reg)
                 else markPropTypesAsUsed context node ancestors [] reg))"

text \<open>
  \<^verbatim>\<open>param.type === 'ObjectPattern' || param.type === 'AssignmentPattern' &&
  param.left.type === 'ObjectPattern'\<close>
\<close>

definition isDestructuringParam :: "node \<Rightarrow> error + bool" where
  "isDestructuringParam param =
     (if ntype param = ''ObjectPattern'' then Inr True
      else if ntype param = ''AssignmentPattern'' then
        (case left param of
           None \<Rightarrow> Inl TypeError
         | Some l \<Rightarrow> Inr (ntype l = ''ObjectPattern''))
      else Inr False)"

definition markDestructuredFunctionArgumentsAsUsed ::
  "env \<Rightarrow> node \<Rightarrow> node list \<Rightarrow> registry \<Rightarrow> error option \<times> registry" where
  "markDestructuredFunctionArgumentsAsUsed context node ancestors reg =
     (case params node of
        None \<Rightarrow> (Some TypeError, reg)
      | Some ps \<Rightarrow>
          (case inSetStateUpdater context of
             Inl e \<Rightarrow> (Some e, reg)
           | Inr inUpdater \<Rightarrow>
               (case (if inUpdater then nth_opt ps 1 else nth_opt ps 0) of
                  None \<Rightarrow> (None, reg)
                | Some param \<Rightarrow>
                    (case isDestructuringParam param of
                       Inl e \<Rightarrow> (Some e, reg)
                     | Inr destructuring \<Rightarrow>
                         if destructuring \<and>
                            (components_get reg (Some (ref node)) \<noteq> None \<or>
                             components_get reg
                               (case ancestors of [] \<Rightarrow> None
                                | parent # _ \<Rightarrow> Some (ref parent)) \<noteq> None)
                         then markPropTypesAsUsed context node ancestors [] reg
                         else (None, reg)))))"

definition handleFunctionLikeExpressions ::
  "env \<Rightarrow> node \<Rightarrow> node list \<Rightarrow> registry \<Rightarrow> error option \<times> registry" where
  "handleFunctionLikeExpressions context node ancestors reg =
     (case handleSetStateUpdater context node ancestors reg of
        (Some e, reg1) \<Rightarrow> (Some e, reg1)
      | (None, reg1) \<Rightarrow> markDestructuredFunctionArgumentsAsUsed context node ancestors reg1)"

text \<open>
  \<^verbatim>\<open>propTypes[key].node\<close> of each declared prop type, in the order of
  \<^verbatim>\<open>Object.keys\<close>, each with its ancestors; a \<^verbatim>\<open>value\<close> that is a node is
  handed to \<^verbatim>\<open>astUtil.isFunctionLikeExpression\<close>.
\<close>

fun handleCustomValidators_loop ::
  "env \<Rightarrow> (string \<times> node \<times> node list) list \<Rightarrow> registry \<Rightarrow> error option \<times> registry" where
  "handleCustomValidators_loop context [] reg = (None, reg)"
| "handleCustomValidators_loop context ((k, node, ancestors) # rest) reg =
     (case nvalue node of
        Some (VNode v) \<Rightarrow>
          if isFunctionLikeExpression context v then
            (case markPropTypesAsUsed context v (node # ancestors) [] reg of
               (Some e, reg1) \<Rightarrow> (Some e, reg1)
             | (None, reg1) \<Rightarrow> handleCustomValidators_loop context rest reg1)
          else handleCustomValidators_loop context rest reg
      | _ \<Rightarrow> handleCustomValidators_loop context rest reg)"

definition handleCustomValidators ::
  "env \<Rightarrow> component \<Rightarrow> registry \<Rightarrow> error option \<times> registry" where
  "handleCustomValidators context component reg =
     (case declaredPropTypes component of
        None \<Rightarrow> (None, reg)
      | Some propTypes \<Rightarrow> handleCustomValidators_loop context propTypes reg)"

fun program_exit_loop ::
  "env \<Rightarrow> component list \<Rightarrow> registry \<Rightarrow> error option \<times> registry" where
  "program_exit_loop context [] reg = (None, reg)"
| "program_exit_loop context (c # rest) reg =
     (case handleCustomValidators context c reg of
        (Some e, reg1) \<Rightarrow> (Some e, reg1)
      | (None, reg1) \<Rightarrow> program_exit_loop context rest reg1)"

text \<open>A node the traversal hands to one of the module's handlers.\<close>

datatype visit =
    VariableDeclarator node "node list"
  | FunctionLike node "node list"
  | JSXSpreadAttribute node
  | MemberExpression node "node list"
  | ObjectPattern node "node list"
  | ProgramExit

definition visit_VariableDeclarator ::
  "env \<Rightarrow> node \<Rightarrow> node list \<Rightarrow> registry \<Rightarrow> error option \<times> registry" where
  "visit_VariableDeclarator context node ancestors reg =
     (let destructuring =
            (init node \<noteq> None \<and>
             (case id_node node of None \<Rightarrow> False | Some i \<Rightarrow> ntype i = ''ObjectPattern''));
          thisD =
            (destructuring \<and>
             (case init node of None \<Rightarrow> False | Some i \<Rightarrow> ntype i = ''ThisExpression''))
      in case (if destructuring then genericDestructuring context node ancestors
               else Inr False) of
           Inl e \<Rightarrow> (Some e, reg)
         | Inr statelessD \<Rightarrow>
             if \<not> thisD \<and> \<not> statelessD then (None, reg)
             else markPropTypesAsUsed context node ancestors [] reg)"

definition visit_JSXSpreadAttribute :: "env \<Rightarrow> node \<Rightarrow> registry \<Rightarrow> registry" where
  "visit_JSXSpreadAttribute context node reg =
     (let component = components_get reg (getParentComponent context)
      in components_set (case component of None \<Rightarrow> ref node | Some c \<Rightarrow> cnode c)
           \<lparr>f_usedPropTypes = None, f_ignoreUnusedPropTypesValidation = Some True\<rparr> reg)"

definition visit_MemberExpression ::
  "env \<Rightarrow> node \<Rightarrow> node list \<Rightarrow> registry \<Rightarrow> error option \<times> registry" where
  "visit_MemberExpression context node ancestors reg =
     (case isPropTypesUsage context node ancestors of
        Inl e \<Rightarrow> (Some e, reg)
      | Inr usage \<Rightarrow>
          if usage then markPropTypesAsUsed context node ancestors [] reg
          else (None, reg))"

definition visit_ObjectPattern ::
  "env \<Rightarrow> node \<Rightarrow> node list \<Rightarrow> registry \<Rightarrow> error option \<times> registry" where
  "visit_ObjectPattern context node ancestors reg =
     (case ancestors of
        [] \<Rightarrow> (Some TypeError, reg)
      | [parent] \<Rightarrow> (Some TypeError, reg)
      | parent # grandparent # rest \<Rightarrow>
          if isNodeALifeCycleMethod grandparent (checkAsyncSafeLifeCycles context) then
            (case properties node of
               None \<Rightarrow> (Some TypeError, reg)
             | Some ps \<Rightarrow>
                 if length ps > 0
                 then markPropTypesAsUsed context parent (grandparent # rest) [] reg
                 else (None, reg))
          else (None, reg))"

definition visit_ProgramExit :: "env \<Rightarrow> registry \<Rightarrow> error option \<times> registry" where
  "visit_ProgramExit context reg =
     program_exit_loop context
       (filter (\<lambda>c. mustBeValidated (Some c)) (components_list reg)) reg"

text \<open>The object \<^verbatim>\<open>usedPropTypesInstructions\<close> returns: one handler per kind of node.\<close>

fun usedPropTypesInstructions ::
  "env \<Rightarrow> visit \<Rightarrow> registry \<Rightarrow> error option \<times> registry" where
  "usedPropTypesInstructions context (VariableDeclarator node ancestors) reg =
     visit_VariableDeclarator context node ancestors reg"
| "usedPropTypesInstructions context (FunctionLike node ancestors) reg =
     handleFunctionLikeExpressions context node ancestors reg"
| "usedPropTypesInstructions context (JSXSpreadAttribute node) reg =
     (None, visit_JSXSpreadAttribute context node reg)"
| "usedPropTypesInstructions context (MemberExpression node ancestors) reg =
     visit_MemberExpression context node ancestors reg"
| "usedPropTypesInstructions context (ObjectPattern node ancestors) reg =
     visit_ObjectPattern context node ancestors reg"
| "usedPropTypesInstructions context ProgramExit reg = visit_ProgramExit context reg"

text \<open>
  A traversal of one source unit: the visits in the order of the traversal, each at
  its ambient position; a thrown error ends the traversal.
\<close>

fun traverse :: "(env \<times> visit) list \<Rightarrow> registry \<Rightarrow> error option \<times> registry" where
  "traverse [] reg = (None, reg)"
| "traverse ((context, v) # rest) reg =
     (case usedPropTypesInstructions context v reg of
        (Some e, reg1) \<Rightarrow> (Some e, reg1)
      | (None, reg1) \<Rightarrow> traverse rest reg1)"

subsection \<open>Building syntax trees\<close>

text \<open>
  Constructors for the nodes of the example programs below: the node's type, its
  identity and the fields that type has in ESTree; every other field is absent.
\<close>

definition Plain :: "string \<Rightarrow> nat \<Rightarrow> string \<Rightarrow> node" where
  "Plain ty r tx =
     Node ty r 0 None False None None None None None None None None None None None None tx []"

definition Identifier :: "nat \<Rightarrow> string \<Rightarrow> node" where
  "Identifier r nm =
     Node ''Identifier'' r 0 (Some nm) False None None None None None None None None None
       None None None nm [nm]"

definition Member :: "nat \<Rightarrow> node \<Rightarrow> node \<Rightarrow> bool \<Rightarrow> string \<Rightarrow> node" where
  "Member r ob pr cp tx =
     Node ''MemberExpression'' r 0 None cp None None (Some ob) (Some pr) None None None None
       None None None None tx []"

definition Property :: "nat \<Rightarrow> node \<Rightarrow> node \<Rightarrow> bool \<Rightarrow> string list \<Rightarrow> node" where
  "Property r ky vl cp tk =
     Node ''Property'' r 0 None cp (Some ''init'') (Some (VNode vl)) None None (Some ky) None
       None None None None None None [] tk"

definition RestElement :: "nat \<Rightarrow> string list \<Rightarrow> node" where
  "RestElement r tk =
     Node ''RestElement'' r 0 None False None None None None None None None None None None
       None None [] tk"

definition Pattern :: "nat \<Rightarrow> node list \<Rightarrow> node" where
  "Pattern r ps =
     Node ''ObjectPattern'' r 0 None False None None None None None None None None None None
       None (Some ps) [] []"

definition Declarator :: "nat \<Rightarrow> node \<Rightarrow> node \<Rightarrow> node" where
  "Declarator r i ini =
     Node ''VariableDeclarator'' r 0 None False None None None None None (Some i) (Some ini)
       None None None None None [] []"

definition Function :: "string \<Rightarrow> nat \<Rightarrow> nat \<Rightarrow> node list \<Rightarrow> node" where
  "Function ty r st ps =
     Node ty r st None False None None None None None None None None None (Some ps) None
       None [] []"

definition Call :: "nat \<Rightarrow> node \<Rightarrow> node list \<Rightarrow> node" where
  "Call r cl ar =
     Node ''CallExpression'' r 0 None False None None None None None None None None (Some cl)
       None (Some ar) None [] []"

definition Method :: "nat \<Rightarrow> string \<Rightarrow> string \<Rightarrow> node" where
  "Method r nm kd =
     Node ''MethodDefinition'' r 0 None False (Some kd) None None None
       (Some (Identifier (Suc r) nm)) None None None None None None None [] []"

text \<open>
  An ambient position with empty scope chain and no component; \<^verbatim>\<open>ast.getKeyValue\<close>
  of a property is the name of its key.
\<close>

definition key_name :: "node \<Rightarrow> string option" where
  "key_name p = (case key p of None \<Rightarrow> None | Some k \<Rightarrow> name k)"

definition nowhere :: env where
  "nowhere =
     \<lparr>scopes = [], getParentES6Component = False, getParentES5Component = False,
      getParentStatelessComponent = False, getParentComponent = None,
      inConstructor = (\<lambda>n. False), getKeyValue = key_name,
      isAssignmentLHS = (\<lambda>n a. False), isFunctionLikeExpression = (\<lambda>n. False),
      checkAsyncSafeLifeCycles = False\<rparr>"

text \<open>A component as the registry holds it before any usage is marked.\<close>

definition registered :: "nat \<Rightarrow> nat \<times> component" where
  "registered k = (k, fresh_component k)"

subsection \<open>Example programs\<close>

text \<open>
  A function component, registered under the identity 1:
  \<^verbatim>\<open>function C(props) { ... }\<close>. The positions below are inside its body.
\<close>

definition sfc :: env where
  "sfc = nowhere\<lparr>getParentStatelessComponent := True, getParentComponent := Some 1\<rparr>"




text \<open>The statement \<^verbatim>\<open>props[x];\<close>\<close>

definition props_x :: node where
  "props_x = Member 10 (Identifier 11 ''props'') (Identifier 12 ''x'') True ''props[x]''"

definition props_x_statement :: node where
  "props_x_statement = Plain ''ExpressionStatement'' 13 ''props[x];''"

text \<open>The call \<^verbatim>\<open>props.hasOwnProperty(k)\<close>\<close>

definition props_hasOwnProperty :: node where
  "props_hasOwnProperty =
     Member 30 (Identifier 31 ''props'') (Identifier 32 ''hasOwnProperty'') False
       ''props.hasOwnProperty''"

definition props_hasOwnProperty_call :: node where
  "props_hasOwnProperty_call =
     Call 33 props_hasOwnProperty [Identifier 34 ''k'']"

text \<open>The declaration \<^verbatim>\<open>const {a, ...rest} = props;\<close>\<close>

definition a_property :: node where
  "a_property = Property 41 (Identifier 42 ''a'') (Identifier 43 ''a'') False [''a'']"

definition rest_element :: node where
  "rest_element = RestElement 44 [''...'', ''rest'']"

definition spread_declarator :: node where
  "spread_declarator =
     Declarator 40 (Pattern 45 [a_property, rest_element]) (Identifier 46 ''props'')"

definition spread_declaration :: node where
  "spread_declaration = Plain ''VariableDeclaration'' 47 ''const {a, ...rest} = props;''"

text \<open>The declaration \<^verbatim>\<open>const {[k]: x, b} = props;\<close>\<close>

definition computed_property :: node where
  "computed_property =
     Property 51 (Identifier 52 ''k'') (Identifier 53 ''x'') True
       [''['', ''k'', '']'', '':'', ''x'']"

definition b_property :: node where
  "b_property = Property 54 (Identifier 55 ''b'') (Identifier 56 ''b'') False [''b'']"

definition computed_declarator :: node where
  "computed_declarator =
     Declarator 50 (Pattern 57 [computed_property, b_property]) (Identifier 58 ''props'')"

definition computed_declaration :: node where
  "computed_declaration = Plain ''VariableDeclaration'' 59 ''const {[k]: x, b} = props;''"







text \<open>
  A class component with one method, registered under the identity of its class
  declaration:
  \<^verbatim>\<open>class C extends Component { render() { return this.props.name; } }\<close>
\<close>

definition render_above_function :: "node list" where
  "render_above_function =
     [Method 103 ''render'' ''method'', Plain ''ClassBody'' 102 [],
      Plain ''ClassDeclaration'' 101 [], Plain ''Program'' 100 []]"

definition render_function :: node where
  "render_function = Function ''FunctionExpression'' 105 0 []"

definition render_above_access :: "node list" where
  "render_above_access =
     Plain ''ReturnStatement'' 107 ''return this.props.name;'' #
     Plain ''BlockStatement'' 106 [] # render_function # render_above_function"

definition this_props :: "nat \<Rightarrow> node" where
  "this_props r =
     Member r (Plain ''ThisExpression'' (r + 1) ''this'') (Identifier (r + 2) ''props'') False
       ''this.props''"

definition this_props_name :: node where
  "this_props_name = Member 108 (this_props 109) (Identifier 112 ''name'') False ''this.props.name''"

text \<open>
  The position inside a method of a class component: the scopes of the function,
  of the class and of the program.
\<close>

definition in_method :: "nat \<Rightarrow> node \<Rightarrow> node list \<Rightarrow> node \<Rightarrow> node \<Rightarrow> env" where
  "in_method k fn outer cls program =
     nowhere\<lparr>scopes := [Some (fn, outer), Some (cls, [program]), Some (program, [])],
              getParentES6Component := True, getParentComponent := Some k\<rparr>"

text \<open>The position of the program itself, where the traversal ends.\<close>

definition at_program :: "node \<Rightarrow> env" where
  "at_program program = nowhere\<lparr>scopes := [Some (program, [])]\<rparr>"

text \<open>The visits of the traversal of the unit, in its order.\<close>

definition render_unit :: "(env \<times> visit) list" where
  "render_unit =
     [(in_method 101 render_function render_above_function
         (Plain ''ClassDeclaration'' 101 []) (Plain ''Program'' 100 []),
       FunctionLike render_function render_above_function),
      (in_method 101 render_function render_above_function
         (Plain ''ClassDeclaration'' 101 []) (Plain ''Program'' 100 []),
       MemberExpression this_props_name render_above_access),
      (in_method 101 render_function render_above_function
         (Plain ''ClassDeclaration'' 101 []) (Plain ''Program'' 100 []),
       MemberExpression (this_props 109) (this_props_name # render_above_access)),
      (at_program (Plain ''Program'' 100 []), ProgramExit)]"

text \<open>
  \<^verbatim>\<open>class C extends Component { componentWillReceiveProps() {
  this.props.config.theme; } }\<close>
\<close>

definition receive_above_function :: "node list" where
  "receive_above_function =
     [Method 203 ''componentWillReceiveProps'' ''method'', Plain ''ClassBody'' 202 [],
      Plain ''ClassDeclaration'' 201 [], Plain ''Program'' 200 []]"

definition receive_function :: node where
  "receive_function = Function ''FunctionExpression'' 205 0 []"

definition receive_above_access :: "node list" where
  "receive_above_access =
     Plain ''ExpressionStatement'' 207 ''this.props.config.theme;'' #
     Plain ''BlockStatement'' 206 [] # receive_function # receive_above_function"

definition this_props_config :: node where
  "this_props_config =
     Member 209 (this_props 210) (Identifier 213 ''config'') False ''this.props.config''"

definition this_props_config_theme :: node where
  "this_props_config_theme =
     Member 208 this_props_config (Identifier 214 ''theme'') False ''this.props.config.theme''"

definition receive_unit :: "(env \<times> visit) list" where
  "receive_unit =
     [(in_method 201 receive_function receive_above_function
         (Plain ''ClassDeclaration'' 201 []) (Plain ''Program'' 200 []),
       FunctionLike receive_function receive_above_function),
      (in_method 201 receive_function receive_above_function
         (Plain ''ClassDeclaration'' 201 []) (Plain ''Program'' 200 []),
       MemberExpression this_props_config_theme receive_above_access),
      (in_method 201 receive_function receive_above_function
         (Plain ''ClassDeclaration'' 201 []) (Plain ''Program'' 200 []),
       MemberExpression this_props_config (this_props_config_theme # receive_above_access)),
      (in_method 201 receive_function receive_above_function
         (Plain ''ClassDeclaration'' 201 []) (Plain ''Program'' 200 []),
       MemberExpression (this_props 210)
         (this_props_config # this_props_config_theme # receive_above_access)),
      (at_program (Plain ''Program'' 200 []), ProgramExit)]"






















subsection \<open>Vocabulary of the properties\<close>

text \<open>The usage list and the suppress flag of the registry entry under a key.\<close>

definition used_of :: "registry \<Rightarrow> nat \<Rightarrow> usage list option" where
  "used_of reg k = (case map_of reg k of None \<Rightarrow> None | Some c \<Rightarrow> usedPropTypes c)"

definition suppressed :: "registry \<Rightarrow> nat \<Rightarrow> bool" where
  "suppressed reg k =
     (case map_of reg k of
        None \<Rightarrow> False
      | Some c \<Rightarrow> ignoreUnusedPropTypesValidation c = Some True)"

text \<open>
  The owning component of an operation: the component the registry holds under
  \<^verbatim>\<open>utils.getParentComponent()\<close>, stored under its own node.
\<close>

definition owner :: "env \<Rightarrow> registry \<Rightarrow> component option" where
  "owner context reg =
     (case getParentComponent context of
        None \<Rightarrow> None
      | Some k \<Rightarrow>
          (case map_of reg k of
             None \<Rightarrow> None
           | Some c \<Rightarrow> if cnode c = k then Some c else None))"

text \<open>\<^verbatim>\<open>component.usedPropTypes || []\<close> of the entry under a key.\<close>

definition used_list :: "registry \<Rightarrow> nat \<Rightarrow> usage list" where
  "used_list reg k = (case used_of reg k of None \<Rightarrow> [] | Some u \<Rightarrow> u)"

text \<open>
  The registry changes under one key only, where the entry keeps its node, its usage
  list is extended at the end and its suppress flag, once true, stays true.
\<close>

definition grows :: "nat \<Rightarrow> registry \<Rightarrow> registry \<Rightarrow> bool" where
  "grows k reg reg' =
     ((\<exists>c c'. map_of reg k = Some c \<and> map_of reg' k = Some c' \<and> cnode c' = cnode c) \<and>
      (\<exists>us. used_list reg' k = used_list reg k @ us) \<and>
      (suppressed reg k \<longrightarrow> suppressed reg' k) \<and>
      (\<forall>k'. k' \<noteq> k \<longrightarrow> map_of reg' k' = map_of reg k'))"

text \<open>
  What marking a member access does before it records anything for the access
  itself: it marks the parent when the parent continues the chain.
\<close>

definition chain_continuation ::
  "env \<Rightarrow> node \<Rightarrow> node list \<Rightarrow> string list \<Rightarrow> registry \<Rightarrow> error option \<times> registry" where
  "chain_continuation ctx node ancestors names reg =
     (case ancestors of
        [] \<Rightarrow> (None, reg)
      | parent # grandparents \<Rightarrow>
          if continues_chain parent node
          then markPropTypesAsUsed ctx parent grandparents names reg
          else (None, reg))"

text \<open>A bound field that is neither a spread nor computed.\<close>

definition bound_statically :: "node \<Rightarrow> bool" where
  "bound_statically p = (\<not> (hasSpreadOperator p \<or> computed p))"

text \<open>
  One usage per field whose key has a name, with the path \<open>names\<close> of the marked
  node followed by the key.
\<close>

definition field_usages :: "env \<Rightarrow> string option list \<Rightarrow> node list \<Rightarrow> usage list" where
  "field_usages ctx names ps =
     concat (map (\<lambda>p. case getKeyValue ctx p of
                         None \<Rightarrow> []
                       | Some s \<Rightarrow>
                           if s \<noteq> []
                           then [\<lparr>uname = s, allNames = names @ [Some s], unode = Some p\<rparr>]
                           else []) ps)"


text \<open>
  The key \<^verbatim>\<open>component ? component.node : node\<close> under which
  \<^verbatim>\<open>markPropTypesAsUsed\<close> merges its result.
\<close>

definition target :: "env \<Rightarrow> node \<Rightarrow> registry \<Rightarrow> nat" where
  "target ctx node reg =
     (case components_get reg (getParentComponent ctx) of
        None \<Rightarrow> ref node
      | Some c \<Rightarrow> cnode c)"










declare markPropTypesAsUsed.simps [simp del]

section \<open>Properties\<close>

subsection \<open>The registry\<close>

lemma map_of_components_set:
  "map_of (components_set k f reg) k' =
     (if k' = k
      then Some (merge_fields
                   (case map_of reg k of None \<Rightarrow> fresh_component k | Some c \<Rightarrow> c) f)
      else map_of reg k')"
  by (induction reg) auto

subsection \<open>Unhandled nodes\<close>

text \<open>
  C6. A node whose type is none of \<^verbatim>\<open>MemberExpression\<close>,
  \<^verbatim>\<open>ArrowFunctionExpression\<close>, \<^verbatim>\<open>FunctionDeclaration\<close>,
  \<^verbatim>\<open>FunctionExpression\<close> and \<^verbatim>\<open>VariableDeclarator\<close> makes
  \<^verbatim>\<open>markPropTypesAsUsed\<close> throw the error that names the node's type, and the
  registry at the throw is the registry it was called with: no usage is appended
  and no component changes.
\<close>

theorem unhandled_node_throws:
  "ntype node \<notin> {''MemberExpression'', ''ArrowFunctionExpression'', ''FunctionDeclaration'',
      ''FunctionExpression'', ''VariableDeclarator''} \<Longrightarrow>
   markPropTypesAsUsed context node ancestors parentNames reg =
     (Some (NotHandled (ntype node)), reg)"
  by (simp add: markPropTypesAsUsed.simps mark_other_def)

theorem unhandled_node_throws_witness:
  "ntype (Identifier 11 ''props'') \<notin> {''MemberExpression'', ''ArrowFunctionExpression'',
      ''FunctionDeclaration'', ''FunctionExpression'', ''VariableDeclarator''} \<and>
   markPropTypesAsUsed nowhere (Identifier 11 ''props'') [] [] [registered 1] =
     (Some (NotHandled ''Identifier''), [registered 1])"
  using unhandled_node_throws [of "Identifier 11 ''props''" nowhere "[]" "[]" "[registered 1]"]
  by (simp add: Identifier_def)

subsection \<open>Spread attributes\<close>

text \<open>
  C10. The \<^verbatim>\<open>JSXSpreadAttribute\<close> handler merges the suppress flag alone: after
  it the entry of the enclosing component (of the node itself when there is no
  component) has \<^verbatim>\<open>ignoreUnusedPropTypesValidation\<close> true, and under every key
  the \<^verbatim>\<open>usedPropTypes\<close> list is what it was.
\<close>

theorem JSXSpreadAttribute_merges_flag_only:
  "suppressed (visit_JSXSpreadAttribute context node reg)
     (case components_get reg (getParentComponent context) of
        None \<Rightarrow> ref node
      | Some c \<Rightarrow> cnode c) \<and>
   (\<forall>k. used_of (visit_JSXSpreadAttribute context node reg) k = used_of reg k)"
  by (simp add: visit_JSXSpreadAttribute_def suppressed_def used_of_def map_of_components_set
      merge_fields_def fresh_component_def Let_def split: option.splits)

subsection \<open>The suppress flag only rises\<close>

lemma grows_refl: "map_of reg k = Some c \<Longrightarrow> grows k reg reg"
  by (simp add: grows_def)

lemma grows_trans: "grows k r1 r2 \<Longrightarrow> grows k r2 r3 \<Longrightarrow> grows k r1 r3"
  unfolding grows_def by (auto simp: )

lemma owner_key:
  "owner context reg = Some c \<Longrightarrow>
   getParentComponent context = Some (cnode c) \<and> map_of reg (cnode c) = Some c"
  by (auto simp: owner_def split: option.splits if_splits)

lemma owner_grows:
  "owner context reg = Some c \<Longrightarrow> grows (cnode c) reg reg' \<Longrightarrow>
   \<exists>c'. owner context reg' = Some c' \<and> cnode c' = cnode c"
  by (auto simp: owner_def grows_def split: option.splits if_splits)

lemma destructuring_loop_grows:
  "destructuring_loop context node ps used ignore = Inr (used', ignore') \<Longrightarrow>
   (\<exists>us. used' = used @ us) \<and> (ignore \<longrightarrow> ignore')"
proof (induction ps arbitrary: used)
  case Nil
  then show ?case by simp
next
  case (Cons p ps)
  then show ?case
    by (fastforce split: if_splits sum.splits option.splits)
qed

lemma grows_set:
  assumes "map_of reg k = Some c"
    and "\<exists>us. used = (case usedPropTypes c of None \<Rightarrow> [] | Some u \<Rightarrow> u) @ us"
    and "(case ignoreUnusedPropTypesValidation c of None \<Rightarrow> False | Some b \<Rightarrow> b) \<longrightarrow> ig"
  shows "grows k reg
           (components_set k
              \<lparr>f_usedPropTypes = Some used, f_ignoreUnusedPropTypesValidation = Some ig\<rparr> reg)"
  using assms
  by (auto simp: grows_def map_of_components_set merge_fields_def used_list_def used_of_def
      suppressed_def split: option.splits)

lemma recordUsage_owner:
  assumes "owner context reg = Some c"
  shows "recordUsage context node ancestors m reg = (eo, reg') \<Longrightarrow> grows (cnode c) reg reg'"
proof -
  from assms have e: "map_of reg (cnode c) = Some c"
    and comp: "components_get reg (getParentComponent context) = Some c"
    by (simp_all add: owner_key components_get_def)
  note here = grows_refl [OF e]
  assume r: "recordUsage context node ancestors m reg = (eo, reg')"
  show ?thesis
  proof (cases m)
    case NoMark
    with r comp show ?thesis
      by (auto simp: recordUsage_def intro!: grows_set [OF e])
  next
    case (Direct n names)
    with r comp here show ?thesis
      by (auto simp: recordUsage_def Let_def intro!: grows_set [OF e]
          split: if_splits sum.splits)
  next
    case (Destructuring props)
    with r comp here show ?thesis
      by (auto simp: recordUsage_def intro!: grows_set [OF e]
          dest!: destructuring_loop_grows split: sum.splits)
  qed
qed

lemma mark_other_owner:
  "owner context reg = Some c \<Longrightarrow> mark_other context node ancestors reg = (eo, reg') \<Longrightarrow>
   grows (cnode c) reg reg'"
  by (auto simp: mark_other_def owner_key grows_refl split: if_splits sum.splits
      dest: recordUsage_owner)

lemma markPropTypesAsUsed_owner:
  "owner ctx reg = Some c \<Longrightarrow>
   markPropTypesAsUsed ctx node ancestors parentNames reg = (eo, reg') \<Longrightarrow>
   grows (cnode c) reg reg'"
proof (induction ctx node ancestors parentNames reg arbitrary: eo reg' c
    rule: markPropTypesAsUsed.induct)
  case (1 ctx node ancestors parentNames reg)
  note own = \<open>owner ctx reg = Some c\<close>
  note res = \<open>markPropTypesAsUsed ctx node ancestors parentNames reg = (eo, reg')\<close>
  have here: "grows (cnode c) reg reg" using own by (simp add: owner_key grows_refl)
  show ?case
  proof (cases "ntype node = ''MemberExpression''")
    case False
    with res own show ?thesis
      by (simp add: markPropTypesAsUsed.simps mark_other_owner)
  next
    case member: True
    show ?thesis
    proof (cases "getPropertyName ctx node ancestors")
      case (Inl e)
      with res member here show ?thesis by (simp add: markPropTypesAsUsed.simps)
    next
      case (Inr nm)
      show ?thesis
      proof (cases "if truthy nm then nm else None")
        case None
        with res member Inr own here show ?thesis
          by (auto simp: markPropTypesAsUsed.simps split: sum.splits dest: recordUsage_owner)
      next
        case (Some n)
        show ?thesis
        proof (cases ancestors)
          case Nil
          with res member Inr Some here show ?thesis by (simp add: markPropTypesAsUsed.simps)
        next
          case (Cons parent grandparents)
          show ?thesis
          proof (cases "continues_chain parent node")
            case False
            with res member Inr Some Cons own show ?thesis
              by (auto simp: markPropTypesAsUsed.simps dest: recordUsage_owner)
          next
            case True
            obtain e1 reg1 where inner:
              "markPropTypesAsUsed ctx parent grandparents (parentNames @ [n]) reg = (e1, reg1)"
              by (cases "markPropTypesAsUsed ctx parent grandparents (parentNames @ [n]) reg")
            from "1.IH" [OF member Inr Some Cons True own inner]
            have g1: "grows (cnode c) reg reg1" .
            show ?thesis
            proof (cases e1)
              case (Some e)
              with res member Inr \<open>(if truthy nm then nm else None) = Some n\<close> Cons True inner g1
              show ?thesis by (simp add: markPropTypesAsUsed.simps)
            next
              case None
              from owner_grows [OF own g1] obtain c1 where
                o1: "owner ctx reg1 = Some c1" and k1: "cnode c1 = cnode c" by blast
              from res member Inr \<open>(if truthy nm then nm else None) = Some n\<close> Cons True inner None
              have "recordUsage ctx node ancestors
                      (if n \<noteq> COMPUTED_PROP then Direct n (parentNames @ [n]) else NoMark) reg1
                    = (eo, reg')"
                by (simp add: markPropTypesAsUsed.simps)
              from recordUsage_owner [OF o1 this] k1 have "grows (cnode c) reg1 reg'" by simp
              with g1 show ?thesis by (rule grows_trans)
            qed
          qed
        qed
      qed
    qed
  qed
qed








subsection \<open>Accesses that record nothing\<close>

lemma member_named_result:
  assumes "ntype node = ''MemberExpression''"
    and "getPropertyName ctx node ancestors = Inr (Some n)" and "n \<noteq> []"
  shows "markPropTypesAsUsed ctx node ancestors parentNames reg =
     (case ancestors of
        [] \<Rightarrow> (Some TypeError, reg)
      | parent # grandparents \<Rightarrow>
          (case chain_continuation ctx node ancestors (parentNames @ [n]) reg of
             (Some e, reg1) \<Rightarrow> (Some e, reg1)
           | (None, reg1) \<Rightarrow>
               recordUsage ctx node ancestors
                 (if n \<noteq> COMPUTED_PROP then Direct n (parentNames @ [n]) else NoMark) reg1))"
  using assms
  by (simp add: markPropTypesAsUsed.simps chain_continuation_def truthy_def split: list.splits)

lemma chain_continuation_owner:
  "owner ctx reg = Some c \<Longrightarrow> chain_continuation ctx node ancestors names reg = (eo, reg') \<Longrightarrow>
   grows (cnode c) reg reg'"
  by (auto simp: chain_continuation_def owner_key grows_refl split: list.splits if_splits
      dest: markPropTypesAsUsed_owner)

lemma components_set_same:
  assumes "map_of reg k0 = Some c"
  shows "used_list (components_set k0
             \<lparr>f_usedPropTypes = Some (case usedPropTypes c of None \<Rightarrow> [] | Some u \<Rightarrow> u),
              f_ignoreUnusedPropTypesValidation =
                Some (case ignoreUnusedPropTypesValidation c of None \<Rightarrow> False | Some b \<Rightarrow> b)\<rparr>
             reg) k = used_list reg k \<and>
         suppressed (components_set k0
             \<lparr>f_usedPropTypes = Some (case usedPropTypes c of None \<Rightarrow> [] | Some u \<Rightarrow> u),
              f_ignoreUnusedPropTypesValidation =
                Some (case ignoreUnusedPropTypesValidation c of None \<Rightarrow> False | Some b \<Rightarrow> b)\<rparr>
             reg) k = suppressed reg k"
proof (cases "k = k0")
  case True
  with assms show ?thesis
    by (simp add: used_list_def used_of_def suppressed_def map_of_components_set
        merge_fields_def split: option.splits)
next
  case False
  then show ?thesis
    by (simp add: used_list_def used_of_def suppressed_def map_of_components_set)
qed

lemma recordUsage_nothing:
  assumes "owner ctx reg = Some c"
    and "m = NoMark \<or> (\<exists>n names. m = Direct n names \<and> n \<in> set Object_prototype)"
  shows "fst (recordUsage ctx node ancestors m reg) = None \<and>
         used_list (snd (recordUsage ctx node ancestors m reg)) k = used_list reg k \<and>
         suppressed (snd (recordUsage ctx node ancestors m reg)) k = suppressed reg k"
proof -
  from assms(1) have e: "map_of reg (cnode c) = Some c"
    and comp: "components_get reg (getParentComponent ctx) = Some c"
    by (simp_all add: owner_key components_get_def)
  from assms(2) comp have "recordUsage ctx node ancestors m reg =
      (None, components_set (cnode c)
         \<lparr>f_usedPropTypes = Some (case usedPropTypes c of None \<Rightarrow> [] | Some u \<Rightarrow> u),
          f_ignoreUnusedPropTypesValidation =
            Some (case ignoreUnusedPropTypesValidation c of None \<Rightarrow> False | Some b \<Rightarrow> b)\<rparr>
         reg)"
    by (auto simp: recordUsage_def)
  with components_set_same [OF e, of k] show ?thesis by simp
qed

lemma member_adds_nothing:
  assumes "ntype node = ''MemberExpression''"
    and "getPropertyName ctx node ancestors = Inr (Some n)" and "n \<noteq> []"
    and "n = COMPUTED_PROP \<or> n \<in> set Object_prototype"
    and "owner ctx reg = Some c"
  shows "used_list (snd (markPropTypesAsUsed ctx node ancestors parentNames reg)) k =
           used_list (snd (chain_continuation ctx node ancestors (parentNames @ [n]) reg)) k \<and>
         suppressed (snd (markPropTypesAsUsed ctx node ancestors parentNames reg)) k =
           suppressed (snd (chain_continuation ctx node ancestors (parentNames @ [n]) reg)) k"
proof (cases ancestors)
  case Nil
  with assms show ?thesis by (simp add: member_named_result chain_continuation_def)
next
  case (Cons parent grandparents)
  obtain e1 reg1 where cc:
    "chain_continuation ctx node ancestors (parentNames @ [n]) reg = (e1, reg1)"
    by (cases "chain_continuation ctx node ancestors (parentNames @ [n]) reg")
  show ?thesis
  proof (cases e1)
    case (Some e)
    with assms Cons cc show ?thesis by (simp add: member_named_result)
  next
    case None
    from chain_continuation_owner [OF assms(5) cc] have "grows (cnode c) reg reg1" .
    from owner_grows [OF assms(5) this] obtain c1 where o1: "owner ctx reg1 = Some c1"
      by blast
    let ?m = "if n \<noteq> COMPUTED_PROP then Direct n (parentNames @ [n]) else NoMark"
    have m: "?m = NoMark \<or> (\<exists>n' names. ?m = Direct n' names \<and> n' \<in> set Object_prototype)"
      using assms(4) by auto
    have "markPropTypesAsUsed ctx node ancestors parentNames reg =
            recordUsage ctx node ancestors ?m reg1"
      using assms(1-3) Cons cc None by (simp add: member_named_result)
    with recordUsage_nothing [OF o1 m, of node ancestors k] cc show ?thesis by simp
  qed
qed


text \<open>
  C1, as stated, fails: in a function component whose only statement is
  \<^verbatim>\<open>props[x];\<close> the access resolves to the computed marker, and after the
  \<^verbatim>\<open>MemberExpression\<close> handler the component has an empty usage list and the
  suppress flag false.
\<close>

theorem computed_access_counterexample:
  "getPropertyName sfc props_x [props_x_statement] = Inr (Some COMPUTED_PROP) \<and>
   usedPropTypesInstructions sfc (MemberExpression props_x [props_x_statement]) [registered 1] =
     (None,
      [(1, (fresh_component 1)
             \<lparr>usedPropTypes := Some [], ignoreUnusedPropTypesValidation := Some False\<rparr>)])"
  by code_simp

text \<open>
  C1, amended. A member access that resolves to the computed marker adds no usage
  of its own and does not touch the suppress flag: for an owning component, the
  usage list and the flag under every key after \<^verbatim>\<open>markPropTypesAsUsed\<close> are
  those left by marking the chain continuation (the parent access, when the access
  is the parent's object), and those before the call when the access is not
  continued.
\<close>

theorem computed_access_adds_nothing:
  assumes "ntype node = ''MemberExpression''"
    and "getPropertyName ctx node ancestors = Inr (Some COMPUTED_PROP)"
    and "owner ctx reg \<noteq> None"
  shows "used_list (snd (markPropTypesAsUsed ctx node ancestors parentNames reg)) k =
           used_list
             (snd (chain_continuation ctx node ancestors (parentNames @ [COMPUTED_PROP]) reg)) k \<and>
         suppressed (snd (markPropTypesAsUsed ctx node ancestors parentNames reg)) k =
           suppressed
             (snd (chain_continuation ctx node ancestors (parentNames @ [COMPUTED_PROP]) reg)) k"
proof -
  from assms(3) obtain c where o: "owner ctx reg = Some c" by auto
  have ne: "COMPUTED_PROP \<noteq> []" by (simp add: COMPUTED_PROP_def)
  show ?thesis
    by (rule member_adds_nothing [OF assms(1) assms(2) ne _ o]) simp
qed

theorem computed_access_adds_nothing_witness:
  "ntype props_x = ''MemberExpression'' \<and>
   getPropertyName sfc props_x [props_x_statement] = Inr (Some COMPUTED_PROP) \<and>
   owner sfc [registered 1] \<noteq> None \<and>
   used_list (snd (markPropTypesAsUsed sfc props_x [props_x_statement] [] [registered 1])) 1 = [] \<and>
   \<not> suppressed (snd (markPropTypesAsUsed sfc props_x [props_x_statement] [] [registered 1])) 1"
proof -
  have t: "ntype props_x = ''MemberExpression''" by code_simp
  have g: "getPropertyName sfc props_x [props_x_statement] = Inr (Some COMPUTED_PROP)"
    by code_simp
  have o: "owner sfc [registered 1] \<noteq> None" by code_simp
  have c: "chain_continuation sfc props_x [props_x_statement] ([] @ [COMPUTED_PROP])
             [registered 1] = (None, [registered 1])"
    by code_simp
  have u: "used_list [registered 1] 1 = []" by code_simp
  have s: "\<not> suppressed [registered 1] 1" by code_simp
  from computed_access_adds_nothing [OF t g o, of "[]" 1] c u s t g o
  show ?thesis by simp
qed

text \<open>
  C9. A direct property access whose name is a property of
  \<^verbatim>\<open>Object.prototype\<close> is not recorded: for an owning component, the usage list
  under every key after \<^verbatim>\<open>markPropTypesAsUsed\<close> is the one left by marking the
  chain continuation, and the one before the call when the access is not
  continued.
\<close>

theorem object_prototype_name_not_recorded:
  assumes "ntype node = ''MemberExpression''"
    and "getPropertyName ctx node ancestors = Inr (Some n)"
    and "n \<in> set Object_prototype"
    and "owner ctx reg \<noteq> None"
  shows "used_list (snd (markPropTypesAsUsed ctx node ancestors parentNames reg)) k =
           used_list (snd (chain_continuation ctx node ancestors (parentNames @ [n]) reg)) k"
proof -
  from assms(4) obtain c where o: "owner ctx reg = Some c" by auto
  from assms(3) have ne: "n \<noteq> []" by (auto simp: Object_prototype_def)
  from assms(3) have "n = COMPUTED_PROP \<or> n \<in> set Object_prototype" by simp
  from member_adds_nothing [OF assms(1) assms(2) ne this o] show ?thesis by simp
qed

theorem object_prototype_name_not_recorded_witness:
  "ntype props_hasOwnProperty = ''MemberExpression'' \<and>
   getPropertyName sfc props_hasOwnProperty [props_hasOwnProperty_call] =
     Inr (Some ''hasOwnProperty'') \<and>
   ''hasOwnProperty'' \<in> set Object_prototype \<and>
   owner sfc [registered 1] \<noteq> None \<and>
   used_list
     (snd (markPropTypesAsUsed sfc props_hasOwnProperty [props_hasOwnProperty_call] []
             [registered 1])) 1 = []"
proof -
  have t: "ntype props_hasOwnProperty = ''MemberExpression''" by code_simp
  have g: "getPropertyName sfc props_hasOwnProperty [props_hasOwnProperty_call] =
             Inr (Some ''hasOwnProperty'')"
    by code_simp
  have m: "''hasOwnProperty'' \<in> set Object_prototype" by code_simp
  have o: "owner sfc [registered 1] \<noteq> None" by code_simp
  have c: "chain_continuation sfc props_hasOwnProperty [props_hasOwnProperty_call]
             ([] @ [''hasOwnProperty'']) [registered 1] = (None, [registered 1])"
    by code_simp
  have u: "used_list [registered 1] 1 = []" by code_simp
  from object_prototype_name_not_recorded [OF t g m o, of "[]" 1] c u t g m o
  show ?thesis by simp
qed

subsection \<open>Destructuring\<close>

lemma destructuring_loop_eq:
  "path_loop node [] = Inr names \<Longrightarrow>
   destructuring_loop ctx node ps used ig =
     Inr (used @ field_usages ctx names (takeWhile bound_statically ps),
          ig \<or> list_ex (\<lambda>p. \<not> bound_statically p) ps)"
proof (induction ps arbitrary: used)
  case Nil
  then show ?case by (simp add: field_usages_def)
next
  case (Cons p ps)
  show ?case
  proof (cases "bound_statically p")
    case False
    then have sp: "hasSpreadOperator p \<or> computed p" by (simp add: bound_statically_def)
    from False have tw: "takeWhile bound_statically (p # ps) = []" by simp
    from False have ex: "list_ex (\<lambda>p. \<not> bound_statically p) (p # ps)" by simp
    have "destructuring_loop ctx node (p # ps) used ig = Inr (used, True)"
      using sp by simp
    with ex show ?thesis unfolding tw by (simp add: field_usages_def)
  next
    case True
    then have np: "\<not> (hasSpreadOperator p \<or> computed p)" by (simp add: bound_statically_def)
    have fu: "field_usages ctx names (p # takeWhile bound_statically ps) =
                field_usages ctx names [p] @ field_usages ctx names (takeWhile bound_statically ps)"
      by (simp add: field_usages_def)
    show ?thesis
      using True np Cons.prems Cons.IH [OF Cons.prems] fu
      by (auto simp: field_usages_def split: option.splits)
  qed
qed

text \<open>
  C3, as stated, fails: marking \<^verbatim>\<open>const {[k]: x, b} = props\<close> in a function
  component sets the suppress flag and records nothing, although \<^verbatim>\<open>b\<close> is a
  bound field with a key and neither a spread nor computed.
\<close>

theorem computed_field_counterexample:
  "bound_statically b_property \<and> getKeyValue sfc b_property = Some ''b'' \<and>
   markPropTypesAsUsed sfc computed_declarator [computed_declaration] [] [registered 1] =
     (None,
      [(1, (fresh_component 1)
             \<lparr>usedPropTypes := Some [], ignoreUnusedPropTypesValidation := Some True\<rparr>)])"
  by code_simp

text \<open>
  C3, amended. When the bound fields of a destructuring pattern are marked for an
  owning component, the fields are taken in order up to the first one that carries
  a spread or is computed: each field before it that has a key name yields one
  usage, that field sets the suppress flag and ends the marking, and neither it nor
  any field after it yields a usage. Without such a field every field with a key
  name yields one usage and the flag stays as it was.
\<close>

theorem destructuring_stops_at_spread:
  assumes "owner ctx reg = Some c" and "path_loop node [] = Inr names"
  shows "fst (recordUsage ctx node ancestors (Destructuring (Some ps)) reg) = None \<and>
         used_list (snd (recordUsage ctx node ancestors (Destructuring (Some ps)) reg)) (cnode c) =
           used_list reg (cnode c) @ field_usages ctx names (takeWhile bound_statically ps) \<and>
         suppressed (snd (recordUsage ctx node ancestors (Destructuring (Some ps)) reg)) (cnode c) =
           (suppressed reg (cnode c) \<or> list_ex (\<lambda>p. \<not> bound_statically p) ps)"
proof -
  from assms(1) have e: "map_of reg (cnode c) = Some c"
    and comp: "components_get reg (getParentComponent ctx) = Some c"
    by (simp_all add: owner_key components_get_def)
  let ?u = "case usedPropTypes c of None \<Rightarrow> [] | Some u \<Rightarrow> u"
  let ?i = "case ignoreUnusedPropTypesValidation c of None \<Rightarrow> False | Some b \<Rightarrow> b"
  have r: "recordUsage ctx node ancestors (Destructuring (Some ps)) reg =
      (None, components_set (cnode c)
         \<lparr>f_usedPropTypes = Some (?u @ field_usages ctx names (takeWhile bound_statically ps)),
          f_ignoreUnusedPropTypesValidation =
            Some (?i \<or> list_ex (\<lambda>p. \<not> bound_statically p) ps)\<rparr> reg)"
    using comp by (simp add: recordUsage_def destructuring_loop_eq [OF assms(2)])
  have u: "used_list reg (cnode c) = ?u"
    using e by (simp add: used_list_def used_of_def)
  have s: "suppressed reg (cnode c) = ?i"
    using e by (auto simp: suppressed_def split: option.splits)
  show ?thesis
    unfolding r u s
    by (simp add: used_list_def used_of_def suppressed_def map_of_components_set
        merge_fields_def)
qed

theorem destructuring_stops_at_spread_witness:
  "owner sfc [registered 1] = Some (fresh_component 1) \<and>
   path_loop spread_declarator [] = Inr [] \<and>
   used_list
     (snd (markPropTypesAsUsed sfc spread_declarator [spread_declaration] [] [registered 1])) 1 =
     [\<lparr>uname = ''a'', allNames = [Some ''a''], unode = Some a_property\<rparr>] \<and>
   suppressed
     (snd (markPropTypesAsUsed sfc spread_declarator [spread_declaration] [] [registered 1])) 1"
proof -
  have o: "owner sfc [registered 1] = Some (fresh_component 1)" by code_simp
  have p: "path_loop spread_declarator [] = Inr []" by code_simp
  have m: "markPropTypesAsUsed sfc spread_declarator [spread_declaration] [] [registered 1] =
           recordUsage sfc spread_declarator [spread_declaration]
             (Destructuring (Some [a_property, rest_element])) [registered 1]"
    by code_simp
  have k: "cnode (fresh_component 1) = 1" by code_simp
  have u: "used_list [registered 1] 1 = []" by code_simp
  have f: "field_usages sfc [] (takeWhile bound_statically [a_property, rest_element]) =
           [\<lparr>uname = ''a'', allNames = [Some ''a''], unode = Some a_property\<rparr>]"
    by code_simp
  have l: "list_ex (\<lambda>p. \<not> bound_statically p) [a_property, rest_element]" by code_simp
  from destructuring_stops_at_spread
    [OF o p, of "[spread_declaration]" "[a_property, rest_element]"] m k u f l o p
  show ?thesis by simp
qed

subsection \<open>Two class components, end to end\<close>

text \<open>
  C2, as stated, fails in its second half: the traversal of the class component
  whose only access is \<^verbatim>\<open>this.props.config.theme\<close>, inside
  \<^verbatim>\<open>componentWillReceiveProps\<close>, leaves two usages, not one.
\<close>

theorem receive_props_counterexample:
  "length (used_list (snd (traverse receive_unit [registered 201])) 201) = 2"
  by code_simp

text \<open>
  C2, amended. The traversal of the class component whose only access is
  \<^verbatim>\<open>this.props.name\<close>, inside \<^verbatim>\<open>render\<close>, ends without error and leaves
  exactly one usage, with name \<^verbatim>\<open>name\<close> and path \<^verbatim>\<open>["name"]\<close>, and the suppress
  flag false. The traversal of the component whose only access is
  \<^verbatim>\<open>this.props.config.theme\<close>, inside \<^verbatim>\<open>componentWillReceiveProps\<close>, ends
  without error and leaves exactly two usages: \<^verbatim>\<open>theme\<close> with path
  \<^verbatim>\<open>["config","theme"]\<close>, then \<^verbatim>\<open>config\<close> with path \<^verbatim>\<open>["config"]\<close>; its
  suppress flag is false.
\<close>

theorem class_components_end_to_end:
  "traverse render_unit [registered 101] =
     (None,
      [(101, (fresh_component 101)
               \<lparr>usedPropTypes :=
                  Some [\<lparr>uname = ''name'', allNames = [Some ''name''],
                         unode = Some (Identifier 112 ''name'')\<rparr>],
                ignoreUnusedPropTypesValidation := Some False\<rparr>)]) \<and>
   traverse receive_unit [registered 201] =
     (None,
      [(201, (fresh_component 201)
               \<lparr>usedPropTypes :=
                  Some [\<lparr>uname = ''theme'', allNames = [Some ''config'', Some ''theme''],
                         unode = Some (Identifier 213 ''config'')\<rparr>,
                        \<lparr>uname = ''config'', allNames = [Some ''config''],
                         unode = Some (Identifier 212 ''props'')\<rparr>],
                ignoreUnusedPropTypesValidation := Some False\<rparr>)])"
  by code_simp

subsection \<open>The suppress flag across the operations\<close>








subsection \<open>Direct chains\<close>










subsection \<open>State updaters\<close>








end
